theory Spec2Isabelle
  imports Complex_Main "HOL-Library.Word"
begin

section \<open>SCARA kinematics of RepRapFirmware (src/Movement/Kinematics/ScaraKinematics.cpp)\<close>

text \<open>
  The C++ type \<open>float\<close> is idealised as \<^typ>\<open>real\<close>: every arithmetic operation and every
  call of \<open>sqrtf\<close>, \<open>cosf\<close>, \<open>sinf\<close> and \<open>atan2f\<close> is exact, and there is neither rounding nor
  NaN nor infinity, and a literal such as \<open>0.01f\<close> is its decimal value. A division by
  zero yields an infinity or a NaN in the firmware and \<open>0\<close> in HOL. For the quotient of
  line 35, which decides whether CartesianToMotorSteps succeeds, the zero divisor is
  written out as a case of its own; the quotients of MotorStepsToCartesian are those of
  HOL, so its results for zero steps per unit are outside the model.
  \<open>int32_t\<close> is \<^typ>\<open>32 word\<close>, read with \<^const>\<open>sint\<close>.
  A C array argument is a list; the callers promise at least three entries
  (Kinematics.h: "numAxes ... will always be at least 3").
\<close>

subsection \<open>Primitives\<close>

type_synonym int32_t = "32 word"

text \<open>
  Modelled from the spec: the axis indices, the two conversion factors between radians and
  degrees and the helper \<open>fsquare\<close> are declared in headers of the repository that are not
  part of the sources at hand. The spec: a position has one entry per axis, "typically X,
  Y, Z, plus extra axes", so X, Y and Z are the entries 0, 1 and 2; the angles are
  converted "radians -> degrees" for the motors and back "-> radians"; \<open>fsquare\<close> is the
  square of "x^2 + y^2".
\<close>

definition X_AXIS :: nat where "X_AXIS = 0"
definition Y_AXIS :: nat where "Y_AXIS = 1"
definition Z_AXIS :: nat where "Z_AXIS = 2"

definition RadiansToDegrees :: real where "RadiansToDegrees = 180 / pi"
definition DegreesToRadians :: real where "DegreesToRadians = pi / 180"

definition fsquare :: "real \<Rightarrow> real" where "fsquare x = x * x"

text \<open>The C library's \<open>atan2f (y, x)\<close>: the angle of the point \<open>(x, y)\<close>, in \<open>(-pi, pi]\<close>.\<close>

definition atan2f :: "real \<Rightarrow> real \<Rightarrow> real" where
  "atan2f y x =
     (if 0 < x then arctan (y / x)
      else if x < 0 then (if 0 \<le> y then arctan (y / x) + pi else arctan (y / x) - pi)
      else if 0 < y then pi / 2
      else if y < 0 then - (pi / 2)
      else 0)"

text \<open>
  Conversion of a float to \<open>int32_t\<close> (implicit in an assignment, or by a cast) discards the
  fractional part. A value outside the range of \<open>int32_t\<close> is undefined behaviour in C++;
  here it wraps.
\<close>

definition float_to_int32 :: "real \<Rightarrow> int32_t" where
  "float_to_int32 r = word_of_int (if 0 \<le> r then \<lfloor>r\<rfloor> else \<lceil>r\<rceil>)"

definition int32_to_float :: "int32_t \<Rightarrow> real" where
  "int32_to_float w = real_of_int (sint w)"

subsection \<open>The state of a ScaraKinematics object\<close>

text \<open>
  The members that the functions of ScaraKinematics.cpp read and write, with the types
  these uses give them (the class declaration, ScaraKinematics.h, is not part of the
  sources at hand): the two theta limits, the two elbow limits and the three cross-talk
  factors are arrays of floats. The first two members are inherited from class Kinematics
  (Kinematics.h, lines 131 and 132).
\<close>

record ScaraKinematics =
  segmentsPerSecond :: real
  minSegmentLength :: real
  proximalArmLength :: real
  distalArmLength :: real
  thetaLimits :: "real list"
  phiMinusThetaLimits :: "real list"
  crosstalk :: "real list"
  minRadius :: real
  maxRadius :: real
  proximalArmLengthSquared :: real
  distalArmLengthSquared :: real
  isDefaultArmMode :: bool

subsection \<open>Recalc (lines 201 to 207)\<close>

definition Recalc :: "ScaraKinematics \<Rightarrow> ScaraKinematics" where
  "Recalc s =
     s\<lparr>minRadius := (proximalArmLength s + distalArmLength s
                       * max (cos (phiMinusThetaLimits s ! 0)) (cos (phiMinusThetaLimits s ! 1)))
                    * (101 / 100),
       maxRadius := (proximalArmLength s + distalArmLength s) * (99 / 100),
       proximalArmLengthSquared := fsquare (proximalArmLength s),
       distalArmLengthSquared := fsquare (distalArmLength s)\<rparr>"

subsection \<open>IsReachable (lines 150 to 155)\<close>

definition IsReachable :: "ScaraKinematics \<Rightarrow> real \<Rightarrow> real \<Rightarrow> bool" where
  "IsReachable s x y =
     (let r = sqrt (fsquare x + fsquare y)
      in r \<ge> minRadius s \<and> r \<le> maxRadius s \<and> x > 0)"

subsection \<open>MotorStepsToCartesian (lines 91 to 101)\<close>

definition MotorStepsToCartesian ::
  "ScaraKinematics \<Rightarrow> int32_t list \<Rightarrow> real list \<Rightarrow> nat \<Rightarrow> real list \<Rightarrow> real list" where
  "MotorStepsToCartesian s motorPos stepsPerMm numDrives machinePos =
     (let arm1Angle = (int32_to_float (motorPos ! X_AXIS) / stepsPerMm ! X_AXIS) * DegreesToRadians;
          arm2Angle = ((int32_to_float (motorPos ! Y_AXIS)
                         + int32_to_float (motorPos ! X_AXIS) * crosstalk s ! 0)
                       / stepsPerMm ! Y_AXIS) * DegreesToRadians;
          machinePos = machinePos[X_AXIS := cos arm1Angle * proximalArmLength s
                                            + cos arm2Angle * distalArmLength s];
          machinePos = machinePos[Y_AXIS := sin arm1Angle * proximalArmLength s
                                            + sin arm2Angle * distalArmLength s];
          machinePos = machinePos[Z_AXIS := (int32_to_float (motorPos ! Z_AXIS)
                                              + int32_to_float (motorPos ! X_AXIS) * crosstalk s ! 1
                                              + int32_to_float (motorPos ! Y_AXIS) * crosstalk s ! 2)
                                            / stepsPerMm ! Z_AXIS]
      in machinePos)"

subsection \<open>CartesianToMotorSteps (lines 30 to 87)\<close>

text \<open>
  The loop of lines 52 to 80. It leaves by \<open>break\<close> with the proximal angle \<open>theta\<close> and the
  (possibly negated) elbow angle, or by \<open>return false\<close>; in both cases the member
  \<open>isDefaultArmMode\<close> keeps what the loop assigned to it.
\<close>

function try_arm_modes ::
  "ScaraKinematics \<Rightarrow> real \<Rightarrow> real \<Rightarrow> real \<Rightarrow> real \<Rightarrow> real \<Rightarrow> bool
     \<Rightarrow> ScaraKinematics \<times> (real \<times> real) option" where
  "try_arm_modes s SCARA_K1 SCARA_K2 x y psiMinusTheta switchedMode =
     (let found =
        (if isDefaultArmMode s
         then (let theta = atan2f (SCARA_K2 * x - SCARA_K1 * y) (SCARA_K1 * x + SCARA_K2 * y)
               in if theta \<ge> thetaLimits s ! 0 then Some (theta, psiMinusTheta) else None)
         else (let theta = atan2f (SCARA_K2 * x + SCARA_K1 * y) (SCARA_K1 * x - SCARA_K2 * y)
               in if theta \<le> thetaLimits s ! 1 then Some (theta, - psiMinusTheta) else None))
      in case found of
           Some sol \<Rightarrow> (s, Some sol)
         | None \<Rightarrow>
             if switchedMode then (s, None)
             else try_arm_modes (s\<lparr>isDefaultArmMode := \<not> isDefaultArmMode s\<rparr>)
                    SCARA_K1 SCARA_K2 x y psiMinusTheta True)"
  by pat_completeness auto
termination
  by (relation "measure (\<lambda>(s, k1, k2, x, y, p, switchedMode). if switchedMode then 0 else 1)") auto

text \<open>
  The divisor of line 35 is zero when an arm length is zero. In float arithmetic the
  quotient is then an infinity if the numerator is not zero: \<open>square\<close> is minus infinity
  and line 41 returns. If the numerator is zero too, the quotient is a NaN, and so is
  every value computed from it; each comparison with a NaN is false, so the test of line
  39 lets the call pass, neither test of lines 58 and 67 lets the loop break, and line 76
  returns in the second round, after line 78 has negated the flag in the first.
\<close>

definition CartesianToMotorSteps ::
  "ScaraKinematics \<Rightarrow> real list \<Rightarrow> real list \<Rightarrow> nat \<Rightarrow> int32_t list
     \<Rightarrow> bool \<times> int32_t list \<times> ScaraKinematics" where
  "CartesianToMotorSteps s machinePos stepsPerMm numAxes motorPos =
     (let x = machinePos ! X_AXIS;
          y = machinePos ! Y_AXIS
      in if 2 * proximalArmLength s * distalArmLength s = 0
         then (if fsquare x + fsquare y - proximalArmLengthSquared s
                    - distalArmLengthSquared s = 0
               then (False, motorPos, s\<lparr>isDefaultArmMode := \<not> isDefaultArmMode s\<rparr>)
               else (False, motorPos, s))
         else
           let cosPsiMinusTheta = (fsquare x + fsquare y - proximalArmLengthSquared s
                                     - distalArmLengthSquared s)
                                  / (2 * proximalArmLength s * distalArmLength s);
               square = 1 - fsquare cosPsiMinusTheta
           in if square < 1 / 100 then (False, motorPos, s)
              else
                let sinPsiMinusTheta = sqrt square;
                    psiMinusTheta = atan2f sinPsiMinusTheta cosPsiMinusTheta;
                    SCARA_K1 = proximalArmLength s + distalArmLength s * cosPsiMinusTheta;
                    SCARA_K2 = distalArmLength s * sinPsiMinusTheta
                in case try_arm_modes s SCARA_K1 SCARA_K2 x y psiMinusTheta False of
                     (s, None) \<Rightarrow> (False, motorPos, s)
                   | (s, Some (theta, psiMinusTheta)) \<Rightarrow>
                       let psi = theta + psiMinusTheta;
                           motorPos = motorPos[X_AXIS :=
                             float_to_int32 (theta * RadiansToDegrees * stepsPerMm ! X_AXIS)];
                           motorPos = motorPos[Y_AXIS :=
                             float_to_int32 ((psi * RadiansToDegrees * stepsPerMm ! Y_AXIS)
                                             - (crosstalk s ! 0 * int32_to_float (motorPos ! X_AXIS)))];
                           motorPos = motorPos[Z_AXIS :=
                             float_to_int32 ((machinePos ! Z_AXIS * stepsPerMm ! Z_AXIS)
                                             - (int32_to_float (motorPos ! X_AXIS) * crosstalk s ! 1)
                                             - (int32_to_float (motorPos ! Y_AXIS) * crosstalk s ! 2))]
                       in (True, motorPos, s))"

subsection \<open>SetOrReportParameters (lines 105 to 146)\<close>

text \<open>
  The reply buffer. \<open>printf\<close> replaces its contents; the text it produces is represented
  by the message and its arguments, in the order of the call, not by its characters.
\<close>

datatype fmt_arg = FloatArg real | IntArg int

datatype StringRef =
    Text string
  | ScaraParametersReport "fmt_arg list"
  | ArrayLengthDiagnostic char nat
  | NotSupportedReport nat

text \<open>
  The command-parsing collaborator, class GCodeBuffer (GCodes/GCodeBuffer.h), is not part
  of the sources at hand. ScaraKinematics.cpp uses two of its member functions, which are
  taken here as the two components of the buffer: \<open>TryGetFValue gb c val seen\<close> returns the
  new contents of the reference arguments \<open>val\<close> and \<open>seen\<close>, and
  \<open>TryGetFloatArray gb c numVals vals reply seen\<close> returns its boolean result and the new
  contents of \<open>vals\<close>, \<open>reply\<close> and \<open>seen\<close>.
\<close>

record GCodeBuffer =
  TryGetFValue :: "char \<Rightarrow> real \<Rightarrow> bool \<Rightarrow> real \<times> bool"
  TryGetFloatArray ::
    "char \<Rightarrow> nat \<Rightarrow> real list \<Rightarrow> StringRef \<Rightarrow> bool \<Rightarrow> bool \<times> real list \<times> StringRef \<times> bool"

text \<open>
  Modelled from the spec: Kinematics::SetOrReportParameters, the base-class version
  (Kinematics.cpp), is not part of the sources at hand. The spec: "If commandCode is
  irrelevant to this geometry, delegate to the default implementation, which reports
  `not supported'", "through the same reply/error channel". No parameter is changed, so
  the result is false.
\<close>

definition Kinematics_SetOrReportParameters ::
  "nat \<Rightarrow> GCodeBuffer \<Rightarrow> StringRef \<Rightarrow> bool \<Rightarrow> bool \<times> StringRef \<times> bool" where
  "Kinematics_SetOrReportParameters mCode gb reply error = (False, NotSupportedReport mCode, True)"

text \<open>
  The result is the returned boolean, the reply buffer, the caller's error flag and the
  object, all after the call. The report carries the arguments of the \<open>printf\<close> of lines
  133 to 138, in their order.
\<close>

definition SetOrReportParameters ::
  "nat \<Rightarrow> GCodeBuffer \<Rightarrow> StringRef \<Rightarrow> bool \<Rightarrow> ScaraKinematics
     \<Rightarrow> bool \<times> StringRef \<times> bool \<times> ScaraKinematics" where
  "SetOrReportParameters mCode gb reply error s =
     (if mCode = 669 then
        let seen = False;
            (v, seen) = TryGetFValue gb CHR ''P'' (proximalArmLength s) seen;
            s = s\<lparr>proximalArmLength := v\<rparr>;
            (v, seen) = TryGetFValue gb CHR ''D'' (distalArmLength s) seen;
            s = s\<lparr>distalArmLength := v\<rparr>;
            (v, seen) = TryGetFValue gb CHR ''S'' (segmentsPerSecond s) seen;
            s = s\<lparr>segmentsPerSecond := v\<rparr>;
            (v, seen) = TryGetFValue gb CHR ''T'' (minSegmentLength s) seen;
            s = s\<lparr>minSegmentLength := v\<rparr>;
            (r, vals, reply, seen) = TryGetFloatArray gb CHR ''A'' 2 (thetaLimits s) reply seen;
            s = s\<lparr>thetaLimits := vals\<rparr>
        in if r then (True, reply, error, s)
           else
             let (r, vals, reply, seen) =
                   TryGetFloatArray gb CHR ''B'' 2 (phiMinusThetaLimits s) reply seen;
                 s = s\<lparr>phiMinusThetaLimits := vals\<rparr>
             in if r then (True, reply, error, s)
                else
                  let (r, vals, reply, seen) =
                        TryGetFloatArray gb CHR ''C'' 3 (crosstalk s) reply seen;
                      s = s\<lparr>crosstalk := vals\<rparr>
                  in if r then (True, reply, error, s)
                     else if seen then (seen, reply, error, Recalc s)
                     else (seen,
                           ScaraParametersReport
                             [FloatArg (proximalArmLength s),
                              FloatArg (thetaLimits s ! 0), FloatArg (thetaLimits s ! 1),
                              FloatArg (distalArmLength s),
                              FloatArg (phiMinusThetaLimits s ! 0),
                              FloatArg (phiMinusThetaLimits s ! 1),
                              FloatArg (crosstalk s ! 0), FloatArg (crosstalk s ! 1),
                              FloatArg (crosstalk s ! 2),
                              IntArg (sint (float_to_int32 (segmentsPerSecond s))),
                              FloatArg (minSegmentLength s)],
                           error, s)
      else
        let (r, reply, error) = Kinematics_SetOrReportParameters mCode gb reply error
        in (r, reply, error, s))"

text \<open>
  Modelled from the spec: the behaviour of GCodeBuffer::TryGetFValue and
  GCodeBuffer::TryGetFloatArray (GCodes/GCodeBuffer.cpp), which are not part of the sources
  at hand. The spec: "a collaborator supplies named scalar/array parameters already typed
  and validated up to syntax level"; it "exposes: fetch-scalar-if-present(letter) ->
  (value, wasPresent); fetch-array-if-present(letter, expectedCount) -> (array, wasPresent,
  parseError)"; "If an array parameter is present and successfully parsed, apply it and
  return immediately (true)"; "on a malformed parameter (e.g. wrong array length), set
  error and write a diagnostic into reply, still return true". A command is the map from
  its parameter letters to the values that follow the letter, at least one, given as the
  first value and the list of the others.
\<close>

type_synonym command = "char \<rightharpoonup> real \<times> real list"

definition parsed_command :: "command \<Rightarrow> GCodeBuffer" where
  "parsed_command ps =
     \<lparr>TryGetFValue = (\<lambda>c val seen.
        case ps c of None \<Rightarrow> (val, seen) | Some (v, vs) \<Rightarrow> (v, True)),
      TryGetFloatArray = (\<lambda>c numVals vals reply seen.
        case ps c of
          None \<Rightarrow> (False, vals, reply, seen)
        | Some (v, vs) \<Rightarrow>
            if Suc (length vs) = numVals then (True, v # vs, reply, True)
            else (True, vals, ArrayLengthDiagnostic c numVals, True))\<rparr>"

section \<open>Notions used in the statements\<close>

subsection \<open>The parts of the inverse solution\<close>

text \<open>
  The intermediate values of CartesianToMotorSteps as functions of the object and the
  target: line 35 (\<open>elbow_cos\<close>), the two candidate angles of lines 57 and 66
  (\<open>arm_theta\<close>, the default mode for \<open>True\<close>), their tests of lines 58 and 67 (\<open>arm_valid\<close>),
  the pair \<open>theta\<close>, \<open>psiMinusTheta\<close> that a mode yields (\<open>mode_angles\<close>), and the three
  assignments of lines 82 to 85 (\<open>motor_steps\<close>).
\<close>

definition elbow_cos :: "ScaraKinematics \<Rightarrow> real \<Rightarrow> real \<Rightarrow> real" where
  "elbow_cos s x y =
     (fsquare x + fsquare y - proximalArmLengthSquared s - distalArmLengthSquared s)
     / (2 * proximalArmLength s * distalArmLength s)"

definition arm_theta :: "real \<Rightarrow> real \<Rightarrow> real \<Rightarrow> real \<Rightarrow> bool \<Rightarrow> real" where
  "arm_theta K1 K2 x y m =
     (if m then atan2f (K2 * x - K1 * y) (K1 * x + K2 * y)
      else atan2f (K2 * x + K1 * y) (K1 * x - K2 * y))"

definition arm_valid :: "real list \<Rightarrow> real \<Rightarrow> bool \<Rightarrow> bool" where
  "arm_valid limits theta m = (if m then theta \<ge> limits ! 0 else theta \<le> limits ! 1)"

definition mode_angles :: "ScaraKinematics \<Rightarrow> real \<Rightarrow> real \<Rightarrow> bool \<Rightarrow> real \<times> real" where
  "mode_angles s x y m =
     (let c = elbow_cos s x y;
          sn = sqrt (1 - fsquare c);
          e = atan2f sn c
      in (arm_theta (proximalArmLength s + distalArmLength s * c) (distalArmLength s * sn) x y m,
          if m then e else - e))"

definition mode_valid :: "ScaraKinematics \<Rightarrow> real \<Rightarrow> real \<Rightarrow> bool \<Rightarrow> bool" where
  "mode_valid s x y m = arm_valid (thetaLimits s) (fst (mode_angles s x y m)) m"

definition motor_steps ::
  "ScaraKinematics \<Rightarrow> real \<times> real \<Rightarrow> real list \<Rightarrow> real list \<Rightarrow> int32_t list \<Rightarrow> int32_t list" where
  "motor_steps s angles machinePos stepsPerMm motorPos =
     (let theta = fst angles;
          psi = theta + snd angles;
          motorPos = motorPos[X_AXIS :=
            float_to_int32 (theta * RadiansToDegrees * stepsPerMm ! X_AXIS)];
          motorPos = motorPos[Y_AXIS :=
            float_to_int32 ((psi * RadiansToDegrees * stepsPerMm ! Y_AXIS)
                            - (crosstalk s ! 0 * int32_to_float (motorPos ! X_AXIS)))];
          motorPos = motorPos[Z_AXIS :=
            float_to_int32 ((machinePos ! Z_AXIS * stepsPerMm ! Z_AXIS)
                            - (int32_to_float (motorPos ! X_AXIS) * crosstalk s ! 1)
                            - (int32_to_float (motorPos ! Y_AXIS) * crosstalk s ! 2))]
      in motorPos)"

subsection \<open>The words of the specification\<close>

text \<open>The specification's \<open>hypot(x, y)\<close>: the distance of the point from the origin.\<close>

definition hypot :: "real \<Rightarrow> real \<Rightarrow> real" where
  "hypot x y = cmod (Complex x y)"

text \<open>The specification's \<open>cosElbow = (x\<^sup>2 + y\<^sup>2 - P\<^sup>2 - D\<^sup>2) / (2 P D)\<close>.\<close>

definition cosElbow :: "real \<Rightarrow> real \<Rightarrow> real \<Rightarrow> real \<Rightarrow> real" where
  "cosElbow P D x y = (x\<^sup>2 + y\<^sup>2 - P\<^sup>2 - D\<^sup>2) / (2 * P * D)"

text \<open>The derived values \<open>P\<^sup>2\<close> and \<open>D\<^sup>2\<close> are those of the current arm lengths.\<close>

definition squares_current :: "ScaraKinematics \<Rightarrow> bool" where
  "squares_current s \<longleftrightarrow>
     proximalArmLengthSquared s = (proximalArmLength s)\<^sup>2 \<and>
     distalArmLengthSquared s = (distalArmLength s)\<^sup>2"

text \<open>
  The specification's forward kinematics: the two arm angles in radians and the three
  coordinates, from the motor steps, the steps per unit, the cross-talk and the arm lengths.
\<close>

definition arm1Angle_spec :: "real \<Rightarrow> real \<Rightarrow> real" where
  "arm1Angle_spec Xsteps stepsPerDegreeX = Xsteps / stepsPerDegreeX * (pi / 180)"

definition arm2Angle_spec :: "real \<Rightarrow> real \<Rightarrow> real \<Rightarrow> real \<Rightarrow> real" where
  "arm2Angle_spec Xsteps Ysteps c0 stepsPerDegreeY = (Ysteps + Xsteps * c0) / stepsPerDegreeY * (pi / 180)"

text \<open>The scalar parameters of a command applied to the object, and whether there is one.\<close>

definition scalar_of :: "command \<Rightarrow> char \<Rightarrow> real \<Rightarrow> real" where
  "scalar_of ps c old = (case ps c of None \<Rightarrow> old | Some (v, vs) \<Rightarrow> v)"

definition apply_scalars :: "command \<Rightarrow> ScaraKinematics \<Rightarrow> ScaraKinematics" where
  "apply_scalars ps s =
     s\<lparr>proximalArmLength := scalar_of ps CHR ''P'' (proximalArmLength s),
       distalArmLength := scalar_of ps CHR ''D'' (distalArmLength s),
       segmentsPerSecond := scalar_of ps CHR ''S'' (segmentsPerSecond s),
       minSegmentLength := scalar_of ps CHR ''T'' (minSegmentLength s)\<rparr>"

definition scalar_present :: "command \<Rightarrow> bool" where
  "scalar_present ps \<longleftrightarrow>
     ps CHR ''P'' \<noteq> None \<or> ps CHR ''D'' \<noteq> None \<or> ps CHR ''S'' \<noteq> None \<or> ps CHR ''T'' \<noteq> None"

subsection \<open>Concrete objects and commands\<close>

text \<open>
  An arm with P = 1 and D = 2, elbow limits of a third of pi either way, after Recalc;
  two arms with P = D = 1 whose range of theta starts above 0, a narrow and a wide one;
  and an arm whose two elbow limits are 0.
\<close>

definition raw_arm :: "real \<Rightarrow> real \<Rightarrow> real list \<Rightarrow> real list \<Rightarrow> ScaraKinematics" where
  "raw_arm P D thetaLims elbowLims =
     \<lparr>segmentsPerSecond = 200, minSegmentLength = 1 / 5,
      proximalArmLength = P, distalArmLength = D,
      thetaLimits = thetaLims, phiMinusThetaLimits = elbowLims, crosstalk = [0, 0, 0],
      minRadius = 0, maxRadius = 0, proximalArmLengthSquared = 0, distalArmLengthSquared = 0,
      isDefaultArmMode = True\<rparr>"

definition ex_arm :: ScaraKinematics where
  "ex_arm = Recalc (raw_arm 1 2 [- 90, 90] [- (pi / 3), pi / 3])"

definition narrow_arm :: ScaraKinematics where
  "narrow_arm = Recalc (raw_arm 1 1 [1 / 4, 1 / 2] [- (pi / 3), pi / 3])"

definition wide_arm :: ScaraKinematics where
  "wide_arm = Recalc (raw_arm 1 1 [1 / 4, 2] [- (pi / 3), pi / 3])"

definition straight_arm :: ScaraKinematics where
  "straight_arm = raw_arm 1 1 [- 90, 90] [0, 0]"

text \<open>An arm without a proximal link, after Recalc.\<close>

definition zero_arm :: ScaraKinematics where
  "zero_arm = Recalc (raw_arm 0 2 [- 90, 90] [- (pi / 3), pi / 3])"

text \<open>The derived values that only Recalc assigns.\<close>

definition derived_values :: "ScaraKinematics \<Rightarrow> real \<times> real \<times> real \<times> real" where
  "derived_values s =
     (minRadius s, maxRadius s, proximalArmLengthSquared s, distalArmLengthSquared s)"

text \<open>
  Five M669 commands: \<open>P100 A0:90\<close>, \<open>B-1:1\<close>, \<open>C0:1:2\<close>, \<open>P100\<close>, and \<open>A0:90:180\<close>, whose
  array has three values where two are expected.
\<close>

definition cmd_PA :: command where
  "cmd_PA = [CHR ''P'' \<mapsto> (100, []), CHR ''A'' \<mapsto> (0, [90])]"

definition cmd_B :: command where
  "cmd_B = [CHR ''B'' \<mapsto> (- 1, [1])]"

definition cmd_C :: command where
  "cmd_C = [CHR ''C'' \<mapsto> (0, [1, 2])]"

definition cmd_P :: command where
  "cmd_P = [CHR ''P'' \<mapsto> (100, [])]"

definition cmd_A3 :: command where
  "cmd_A3 = [CHR ''A'' \<mapsto> (0, [90, 180])]"

text \<open>
  The object that the command \<open>M669 P1 A0:90:180\<close> leaves behind when it is given to an
  arm with P = D = 2 after Recalc: the array is malformed, so SetOrReportParameters
  returns at line 116, after line 110 has stored the new P and before line 129 calls
  Recalc.
\<close>

definition cmd_P1A3 :: command where
  "cmd_P1A3 = [CHR ''P'' \<mapsto> (1, []), CHR ''A'' \<mapsto> (0, [90, 180])]"

definition stale_arm :: ScaraKinematics where
  "stale_arm =
     snd (snd (snd (SetOrReportParameters 669 (parsed_command cmd_P1A3) (Text []) False
                      (Recalc (raw_arm 2 2 [- 90, 90] [- (pi / 3), pi / 3])))))"


section \<open>Properties\<close>

subsection \<open>Auxiliary facts\<close>

text \<open>The loop runs at most twice; its two rounds, written out.\<close>

declare try_arm_modes.simps [simp del]

lemma try_arm_modes_first:
  "try_arm_modes s K1 K2 x y p False =
     (let m = isDefaultArmMode s in
      if arm_valid (thetaLimits s) (arm_theta K1 K2 x y m) m
      then (s, Some (arm_theta K1 K2 x y m, if m then p else - p))
      else if arm_valid (thetaLimits s) (arm_theta K1 K2 x y (\<not> m)) (\<not> m)
      then (s\<lparr>isDefaultArmMode := \<not> m\<rparr>, Some (arm_theta K1 K2 x y (\<not> m), if m then - p else p))
      else (s\<lparr>isDefaultArmMode := \<not> m\<rparr>, None))"
  by (simp add: try_arm_modes.simps [of s] try_arm_modes.simps [of "s\<lparr>isDefaultArmMode := \<not> isDefaultArmMode s\<rparr>"]
      arm_valid_def arm_theta_def Let_def)

lemma CartesianToMotorSteps_cases:
  "CartesianToMotorSteps s machinePos stepsPerMm numAxes motorPos =
     (let x = machinePos ! X_AXIS; y = machinePos ! Y_AXIS; m = isDefaultArmMode s in
      if 2 * proximalArmLength s * distalArmLength s = 0
      then (if fsquare x + fsquare y - proximalArmLengthSquared s - distalArmLengthSquared s = 0
            then (False, motorPos, s\<lparr>isDefaultArmMode := \<not> m\<rparr>)
            else (False, motorPos, s))
      else if 1 - fsquare (elbow_cos s x y) < 1 / 100 then (False, motorPos, s)
      else if mode_valid s x y m
      then (True, motor_steps s (mode_angles s x y m) machinePos stepsPerMm motorPos, s)
      else if mode_valid s x y (\<not> m)
      then (True, motor_steps s (mode_angles s x y (\<not> m)) machinePos stepsPerMm motorPos,
            s\<lparr>isDefaultArmMode := \<not> m\<rparr>)
      else (False, motorPos, s\<lparr>isDefaultArmMode := \<not> m\<rparr>))"
  unfolding CartesianToMotorSteps_def try_arm_modes_first mode_valid_def mode_angles_def
    motor_steps_def elbow_cos_def Let_def
  by (cases "isDefaultArmMode s") (simp_all del: list_update.simps)

lemma singular_divisor:
  assumes "1 - fsquare (elbow_cos s x y) < 1 / 100"
  shows "2 * proximalArmLength s * distalArmLength s \<noteq> 0"
proof
  assume "2 * proximalArmLength s * distalArmLength s = 0"
  then have "elbow_cos s x y = 0"
    by (simp only: elbow_cos_def division_ring_divide_zero)
  with assms show False
    by (simp add: fsquare_def)
qed

lemma ex_arm_fields:
  "proximalArmLength ex_arm = 1" "distalArmLength ex_arm = 2"
  "proximalArmLengthSquared ex_arm = 1" "distalArmLengthSquared ex_arm = 4"
  "minRadius ex_arm = 101 / 50" "maxRadius ex_arm = 297 / 100"
  "thetaLimits ex_arm = [- 90, 90]" "crosstalk ex_arm = [0, 0, 0]"
  "isDefaultArmMode ex_arm = True"
  "phiMinusThetaLimits ex_arm = [- (pi / 3), pi / 3]"
  "segmentsPerSecond ex_arm = 200" "minSegmentLength ex_arm = 1 / 5"
  by (simp_all add: ex_arm_def raw_arm_def Recalc_def fsquare_def cos_60)

lemma narrow_arm_fields:
  "proximalArmLength narrow_arm = 1" "distalArmLength narrow_arm = 1"
  "proximalArmLengthSquared narrow_arm = 1" "distalArmLengthSquared narrow_arm = 1"
  "thetaLimits narrow_arm = [1 / 4, 1 / 2]" "crosstalk narrow_arm = [0, 0, 0]"
  "isDefaultArmMode narrow_arm = True"
  by (simp_all add: narrow_arm_def raw_arm_def Recalc_def fsquare_def)

lemma squares_current_Recalc: "squares_current (Recalc s)"
  by (simp add: squares_current_def Recalc_def fsquare_def power2_eq_square)

lemma elbow_cos_cosElbow:
  "squares_current s \<Longrightarrow> elbow_cos s x y = cosElbow (proximalArmLength s) (distalArmLength s) x y"
  by (simp add: squares_current_def elbow_cos_def cosElbow_def fsquare_def power2_eq_square)

lemma cosElbow_extended:
  assumes "P \<noteq> 0" "D \<noteq> 0" "x\<^sup>2 + y\<^sup>2 = (P + D)\<^sup>2"
  shows "cosElbow P D x y = 1"
proof -
  have "x\<^sup>2 + y\<^sup>2 - P\<^sup>2 - D\<^sup>2 = 2 * P * D"
    using assms(3) by (simp add: power2_sum)
  then show ?thesis
    using assms(1,2) by (simp add: cosElbow_def)
qed

lemma radii_algebra:
  fixes P D m :: real
  assumes "0 < D"
  shows "(P + D * m) * (101 / 100) < (P + D) * (99 / 100) \<longleftrightarrow> m < (99 * D - 2 * P) / (101 * D)"
proof -
  have "m < (99 * D - 2 * P) / (101 * D) \<longleftrightarrow> m * (101 * D) < 99 * D - 2 * P"
    using assms by (simp add: pos_less_divide_eq)
  moreover have "(P + D * m) * (101 / 100) < (P + D) * (99 / 100) \<longleftrightarrow>
      m * (101 * D) < 99 * D - 2 * P"
    by (auto simp add: algebra_simps)
  ultimately show ?thesis by simp
qed

lemma motor_steps_frame:
  "3 \<le> i \<Longrightarrow> motor_steps s angles machinePos stepsPerMm motorPos ! i = motorPos ! i"
  by (simp add: motor_steps_def Let_def X_AXIS_def Y_AXIS_def Z_AXIS_def)

lemma motor_steps_length:
  "length (motor_steps s angles machinePos stepsPerMm motorPos) = length motorPos"
  by (simp add: motor_steps_def Let_def)

lemma motor_steps_values:
  assumes "3 \<le> length motorPos"
  shows "motor_steps s (theta, e) machinePos stepsPerMm motorPos =
     (let mx = float_to_int32 (theta * RadiansToDegrees * stepsPerMm ! 0);
          my = float_to_int32 ((theta + e) * RadiansToDegrees * stepsPerMm ! 1
                               - crosstalk s ! 0 * int32_to_float mx);
          mz = float_to_int32 (machinePos ! 2 * stepsPerMm ! 2 - int32_to_float mx * crosstalk s ! 1
                               - int32_to_float my * crosstalk s ! 2)
      in motorPos[0 := mx, 1 := my, 2 := mz])"
proof -
  from assms have "motorPos \<noteq> []" "Suc 0 < length motorPos" "2 < length motorPos"
    by auto
  then show ?thesis
    by (simp add: motor_steps_def Let_def X_AXIS_def Y_AXIS_def Z_AXIS_def)
qed

lemma wide_arm_fields:
  "proximalArmLength wide_arm = 1" "distalArmLength wide_arm = 1"
  "proximalArmLengthSquared wide_arm = 1" "distalArmLengthSquared wide_arm = 1"
  "thetaLimits wide_arm = [1 / 4, 2]" "crosstalk wide_arm = [0, 0, 0]"
  "isDefaultArmMode wide_arm = True"
  by (simp_all add: wide_arm_def raw_arm_def Recalc_def fsquare_def)

lemma pi_bounds: "1 / 2 < pi / 2" "pi / 2 \<le> 2" "- 90 \<le> pi / 2"
  using pi_ge_two pi_half_less_two by simp_all

lemma ex_arm_target:
  "elbow_cos ex_arm 2 (- 1) = 0"
  "mode_angles ex_arm 2 (- 1) True = (pi / 2, pi / 2)"
  "mode_valid ex_arm 2 (- 1) True"
  using pi_bounds
  by (simp_all add: mode_valid_def mode_angles_def elbow_cos_def arm_theta_def arm_valid_def
      atan2f_def ex_arm_fields fsquare_def Let_def)

lemma unit_arm_angles:
  assumes "proximalArmLength s = 1" "distalArmLength s = 1"
    "proximalArmLengthSquared s = 1" "distalArmLengthSquared s = 1"
  shows "elbow_cos s 1 1 = 0"
    "mode_angles s 1 1 True = (0, pi / 2)"
    "mode_angles s 1 1 False = (pi / 2, - (pi / 2))"
  using assms
  by (simp_all add: mode_angles_def elbow_cos_def arm_theta_def atan2f_def fsquare_def Let_def)

lemma inverse_example:
  "CartesianToMotorSteps ex_arm [2, - 1, 0] [1, 1, 1] 3 [0, 0, 0] = (True, [90, 180, 0], ex_arm)"
  by (simp add: CartesianToMotorSteps_cases Let_def X_AXIS_def Y_AXIS_def ex_arm_target
      motor_steps_values fsquare_def ex_arm_fields RadiansToDegrees_def float_to_int32_def
      int32_to_float_def)

lemma switch_example:
  "CartesianToMotorSteps wide_arm [1, 1, 0] [1, 1, 1] 3 [0, 0, 0]
     = (True, [90, 0, 0], wide_arm\<lparr>isDefaultArmMode := False\<rparr>)"
  using pi_bounds
  by (simp add: CartesianToMotorSteps_cases Let_def X_AXIS_def Y_AXIS_def mode_valid_def
      unit_arm_angles [OF wide_arm_fields(1-4)] arm_valid_def wide_arm_fields fsquare_def
      motor_steps_values RadiansToDegrees_def float_to_int32_def int32_to_float_def)

lemma forward_example:
  "MotorStepsToCartesian ex_arm [90, 180, 0] [1, 1, 1] 3 [0, 0, 0] = [- 2, 1, 0]"
  by (simp add: MotorStepsToCartesian_def Let_def ex_arm_fields X_AXIS_def Y_AXIS_def Z_AXIS_def
      DegreesToRadians_def int32_to_float_def)

lemma M669_error_flag_untouched:
  "fst (snd (snd (SetOrReportParameters 669 gb reply error s))) = error"
  by (simp add: SetOrReportParameters_def Let_def split: prod.splits)

lemma parsed_TryGetFValue:
  "TryGetFValue (parsed_command ps) c val seen = (scalar_of ps c val, seen \<or> ps c \<noteq> None)"
  by (simp add: parsed_command_def scalar_of_def split: option.splits)

lemma parsed_TryGetFloatArray:
  "TryGetFloatArray (parsed_command ps) c n vals reply seen =
     (case ps c of
        None \<Rightarrow> (False, vals, reply, seen)
      | Some (v, vs) \<Rightarrow>
          if Suc (length vs) = n then (True, v # vs, reply, True)
          else (True, vals, ArrayLengthDiagnostic c n, True))"
  by (simp add: parsed_command_def)

lemma apply_scalars_absent: "\<not> scalar_present ps \<Longrightarrow> apply_scalars ps s = s"
  by (simp add: apply_scalars_def scalar_present_def scalar_of_def split: option.splits)

lemma M669_parsed:
  "SetOrReportParameters 669 (parsed_command ps) reply error s =
     (let s1 = apply_scalars ps s in
      case ps CHR ''A'' of
        Some (a, as) \<Rightarrow>
          if Suc (length as) = 2 then (True, reply, error, s1\<lparr>thetaLimits := a # as\<rparr>)
          else (True, ArrayLengthDiagnostic CHR ''A'' 2, error, s1)
      | None \<Rightarrow>
         (case ps CHR ''B'' of
            Some (b, bs) \<Rightarrow>
              if Suc (length bs) = 2 then (True, reply, error, s1\<lparr>phiMinusThetaLimits := b # bs\<rparr>)
              else (True, ArrayLengthDiagnostic CHR ''B'' 2, error, s1)
          | None \<Rightarrow>
             (case ps CHR ''C'' of
                Some (c, cs) \<Rightarrow>
                  if Suc (length cs) = 3 then (True, reply, error, s1\<lparr>crosstalk := c # cs\<rparr>)
                  else (True, ArrayLengthDiagnostic CHR ''C'' 3, error, s1)
              | None \<Rightarrow>
                  if scalar_present ps then (True, reply, error, Recalc s1)
                  else (False,
                        ScaraParametersReport
                          [FloatArg (proximalArmLength s),
                           FloatArg (thetaLimits s ! 0), FloatArg (thetaLimits s ! 1),
                           FloatArg (distalArmLength s),
                           FloatArg (phiMinusThetaLimits s ! 0), FloatArg (phiMinusThetaLimits s ! 1),
                           FloatArg (crosstalk s ! 0), FloatArg (crosstalk s ! 1),
                           FloatArg (crosstalk s ! 2),
                           IntArg (sint (float_to_int32 (segmentsPerSecond s))),
                           FloatArg (minSegmentLength s)],
                        error, s))))"
  unfolding SetOrReportParameters_def
  by (auto simp add: Let_def parsed_TryGetFValue parsed_TryGetFloatArray apply_scalars_def
      scalar_present_def scalar_of_def split: option.splits prod.splits)

lemma derived_values_kept:
  "derived_values (apply_scalars ps s\<lparr>thetaLimits := v1\<rparr>) = derived_values s"
  "derived_values (apply_scalars ps s\<lparr>phiMinusThetaLimits := v2\<rparr>) = derived_values s"
  "derived_values (apply_scalars ps s\<lparr>crosstalk := v3\<rparr>) = derived_values s"
  by (simp_all add: derived_values_def apply_scalars_def)

lemma M669_array_return_skips_Recalc:
  assumes "\<And>vals reply seen. fst (TryGetFloatArray gb CHR ''A'' 2 vals reply seen)"
  shows "fst (SetOrReportParameters 669 gb reply error s)"
    and "derived_values (snd (snd (snd (SetOrReportParameters 669 gb reply error s))))
           = derived_values s"
  using assms
  by (auto simp add: SetOrReportParameters_def Let_def derived_values_def split: prod.splits
      dest: arg_cong [where f = fst])

lemma cmd_lookups:
  "cmd_PA CHR ''A'' = Some (0, [90])" "cmd_PA CHR ''P'' = Some (100, [])"
  "cmd_PA CHR ''D'' = None" "cmd_PA CHR ''S'' = None" "cmd_PA CHR ''T'' = None"
  "cmd_B CHR ''A'' = None" "cmd_B CHR ''B'' = Some (- 1, [1])"
  "cmd_B CHR ''P'' = None" "cmd_B CHR ''D'' = None" "cmd_B CHR ''S'' = None" "cmd_B CHR ''T'' = None"
  "cmd_C CHR ''A'' = None" "cmd_C CHR ''B'' = None" "cmd_C CHR ''C'' = Some (0, [1, 2])"
  "cmd_C CHR ''P'' = None" "cmd_C CHR ''D'' = None" "cmd_C CHR ''S'' = None" "cmd_C CHR ''T'' = None"
  "cmd_P CHR ''A'' = None" "cmd_P CHR ''B'' = None" "cmd_P CHR ''C'' = None"
  "cmd_P CHR ''P'' = Some (100, [])"
  "cmd_P CHR ''D'' = None" "cmd_P CHR ''S'' = None" "cmd_P CHR ''T'' = None"
  by (simp_all add: cmd_PA_def cmd_B_def cmd_C_def cmd_P_def)

subsection \<open>Rejection of singular targets\<close>

lemma atan2f_right: "0 < a \<Longrightarrow> - (pi / 2) < atan2f b a"
  by (simp add: atan2f_def arctan_lbound)

lemma stale_arm_fields:
  "proximalArmLength stale_arm = 1" "distalArmLength stale_arm = 2"
  "proximalArmLengthSquared stale_arm = 4" "distalArmLengthSquared stale_arm = 4"
  "thetaLimits stale_arm = [- 90, 90]" "isDefaultArmMode stale_arm = True"
  by (simp_all add: stale_arm_def M669_parsed cmd_P1A3_def apply_scalars_def scalar_of_def
      Recalc_def raw_arm_def fsquare_def Let_def)

lemma zero_arm_fields:
  "proximalArmLength zero_arm = 0" "distalArmLength zero_arm = 2"
  "proximalArmLengthSquared zero_arm = 0" "distalArmLengthSquared zero_arm = 4"
  by (simp_all add: zero_arm_def raw_arm_def Recalc_def fsquare_def)

lemma zero_divisor_fails:
  assumes "proximalArmLength s = 0 \<or> distalArmLength s = 0"
  shows "\<not> fst (CartesianToMotorSteps s machinePos stepsPerMm numAxes motorPos)"
    and "fst (snd (CartesianToMotorSteps s machinePos stepsPerMm numAxes motorPos)) = motorPos"
  using assms by (auto simp add: CartesianToMotorSteps_cases Let_def)

text \<open>
  Claim C2, as stated, fails when the cached squares are not those of the arm lengths.
  The command \<open>M669 P1 A0:90:180\<close> leaves an arm that had P = D = 2 with P = 1 and the
  cached \<open>P\<^sup>2 = 4\<close>. For the target (3, 0), which has \<open>x\<^sup>2 + y\<^sup>2 = (P + D)\<^sup>2\<close> and the
  claim's \<open>cosElbow = 1\<close>, line 35 computes \<open>(9 - 4 - 4) / 4 = 0.25\<close>, the test of line 39
  lets the call pass, and the default mode yields an angle above the lower limit: the
  call returns true.
\<close>

theorem singularity_rejected_counterexample:
  "(3 :: real)\<^sup>2 + 0\<^sup>2 = (proximalArmLength stale_arm + distalArmLength stale_arm)\<^sup>2
   \<and> 1 - (cosElbow (proximalArmLength stale_arm) (distalArmLength stale_arm) 3 0)\<^sup>2 < 1 / 100
   \<and> fst (CartesianToMotorSteps stale_arm [3, 0, 0] [1, 1, 1] 3 [0, 0, 0])"
proof -
  have ec: "elbow_cos stale_arm 3 0 = 1 / 4"
    by (simp add: elbow_cos_def stale_arm_fields fsquare_def)
  have "- (pi / 2) < fst (mode_angles stale_arm 3 0 True)"
    by (simp add: mode_angles_def Let_def ec arm_theta_def stale_arm_fields atan2f_right)
  moreover have "- 90 \<le> - (pi / 2)"
    using pi_half_less_two by linarith
  ultimately have valid: "mode_valid stale_arm 3 0 True"
    by (simp add: mode_valid_def arm_valid_def stale_arm_fields)
  have "fst (CartesianToMotorSteps stale_arm [3, 0, 0] [1, 1, 1] 3 [0, 0, 0])"
    using valid
    by (simp add: CartesianToMotorSteps_cases Let_def X_AXIS_def Y_AXIS_def ec stale_arm_fields
        fsquare_def)
  then show ?thesis
    by (simp add: stale_arm_fields cosElbow_def)
qed

text \<open>
  Claim C2, amended. CartesianToMotorSteps fails, leaving the output array and the object
  as they were, whenever \<open>1 - c\<^sup>2 < 0.01\<close>, where \<open>c\<close> is the quotient that the code
  computes from the cached squares, \<open>(x\<^sup>2 + y\<^sup>2 - Psq - Dsq) / (2 P D)\<close>; with an arm
  length of zero, where the quotient is infinite or undefined, it fails as well and
  writes nothing to the output array. When the cached squares are those of the arm
  lengths, as after Recalc, \<open>c\<close> is the \<open>cosElbow\<close> of the claim, and the call fails for
  every target with \<open>x\<^sup>2 + y\<^sup>2 = (P + D)\<^sup>2\<close>, the fully extended arm; for arm lengths
  other than zero the object is then unchanged as well. The failure is the returned
  \<open>False\<close> and nothing else.
\<close>

theorem singularity_rejected:
  "let x = machinePos ! X_AXIS; y = machinePos ! Y_AXIS;
       P = proximalArmLength s; D = distalArmLength s;
       c = (x\<^sup>2 + y\<^sup>2 - proximalArmLengthSquared s - distalArmLengthSquared s) / (2 * P * D);
       r = CartesianToMotorSteps s machinePos stepsPerMm numAxes motorPos
   in (1 - c\<^sup>2 < 1 / 100 \<longrightarrow> r = (False, motorPos, s))
    \<and> (P = 0 \<or> D = 0 \<longrightarrow> \<not> fst r \<and> fst (snd r) = motorPos)
    \<and> (squares_current s \<longrightarrow> c = cosElbow P D x y)
    \<and> (squares_current s \<and> x\<^sup>2 + y\<^sup>2 = (P + D)\<^sup>2 \<longrightarrow> \<not> fst r \<and> fst (snd r) = motorPos)
    \<and> (squares_current s \<and> x\<^sup>2 + y\<^sup>2 = (P + D)\<^sup>2 \<and> P \<noteq> 0 \<and> D \<noteq> 0 \<longrightarrow>
          r = (False, motorPos, s))"
proof -
  define x where "x = machinePos ! X_AXIS"
  define y where "y = machinePos ! Y_AXIS"
  define P where "P = proximalArmLength s"
  define D where "D = distalArmLength s"
  define c where
    "c = (x\<^sup>2 + y\<^sup>2 - proximalArmLengthSquared s - distalArmLengthSquared s) / (2 * P * D)"
  define r where "r = CartesianToMotorSteps s machinePos stepsPerMm numAxes motorPos"
  have c: "c = elbow_cos s x y"
    by (simp add: c_def elbow_cos_def fsquare_def power2_eq_square P_def D_def)
  have cached: "r = (False, motorPos, s)" if "1 - c\<^sup>2 < 1 / 100"
  proof -
    have "1 - fsquare (elbow_cos s (machinePos ! X_AXIS) (machinePos ! Y_AXIS)) < 1 / 100"
      using that c by (simp add: fsquare_def power2_eq_square x_def y_def)
    then show ?thesis
      using singular_divisor [of s "machinePos ! X_AXIS" "machinePos ! Y_AXIS"]
      by (simp add: r_def CartesianToMotorSteps_cases Let_def)
  qed
  have zero: "\<not> fst r \<and> fst (snd r) = motorPos" if "P = 0 \<or> D = 0"
    using that zero_divisor_fails [of s machinePos stepsPerMm numAxes motorPos]
    by (simp add: r_def P_def D_def)
  have spec: "c = cosElbow P D x y" if "squares_current s"
    using that c by (simp add: elbow_cos_cosElbow P_def D_def)
  have full: "r = (False, motorPos, s)"
    if "squares_current s" "x\<^sup>2 + y\<^sup>2 = (P + D)\<^sup>2" "P \<noteq> 0" "D \<noteq> 0"
  proof -
    have "c = 1"
      using spec [OF that(1)] cosElbow_extended [OF that(3) that(4) that(2)] by simp
    then show ?thesis
      using cached by simp
  qed
  have extended: "\<not> fst r \<and> fst (snd r) = motorPos"
    if "squares_current s" "x\<^sup>2 + y\<^sup>2 = (P + D)\<^sup>2"
  proof (cases "P = 0 \<or> D = 0")
    case True
    then show ?thesis by (rule zero)
  next
    case False
    then show ?thesis
      using full [OF that] by simp
  qed
  show ?thesis
    unfolding Let_def
    using cached zero spec extended full
    unfolding x_def y_def P_def D_def c_def r_def
    by blast
qed

theorem singularity_rejected_witness:
  "squares_current ex_arm
   \<and> (3 :: real)\<^sup>2 + 0\<^sup>2 = (proximalArmLength ex_arm + distalArmLength ex_arm)\<^sup>2
   \<and> proximalArmLength ex_arm \<noteq> 0 \<and> distalArmLength ex_arm \<noteq> 0
   \<and> 1 - (cosElbow (proximalArmLength ex_arm) (distalArmLength ex_arm) 3 0)\<^sup>2 < 1 / 100
   \<and> CartesianToMotorSteps ex_arm [3, 0, 0] [1, 1, 1] 3 [5, 6, 7] = (False, [5, 6, 7], ex_arm)
   \<and> squares_current zero_arm \<and> proximalArmLength zero_arm = 0
   \<and> (2 :: real)\<^sup>2 + 0\<^sup>2 = (proximalArmLength zero_arm + distalArmLength zero_arm)\<^sup>2
   \<and> \<not> fst (CartesianToMotorSteps zero_arm [2, 0, 0] [1, 1, 1] 3 [5, 6, 7])
   \<and> fst (snd (CartesianToMotorSteps zero_arm [2, 0, 0] [1, 1, 1] 3 [5, 6, 7])) = [5, 6, 7]"
proof -
  have h: "squares_current ex_arm" "squares_current zero_arm"
    by (simp_all add: squares_current_def ex_arm_fields zero_arm_fields)
  show ?thesis
    using h singularity_rejected [of "[3, 0, 0]" ex_arm "[1, 1, 1]" 3 "[5, 6, 7]"]
      singularity_rejected [of "[2, 0, 0]" zero_arm "[1, 1, 1]" 3 "[5, 6, 7]"]
    by (simp add: Let_def ex_arm_fields zero_arm_fields X_AXIS_def Y_AXIS_def cosElbow_def)
qed

text \<open>
  Claim C10. When the test of line 39 fails the target, CartesianToMotorSteps returns
  \<open>False\<close> with the array \<open>motorPos\<close> and the whole object, the arm-mode flag included,
  unchanged. The test is stated on the values the code computes, whatever the cached
  squares are.
\<close>

theorem singular_target_changes_nothing:
  assumes "1 - fsquare (elbow_cos s (machinePos ! X_AXIS) (machinePos ! Y_AXIS)) < 1 / 100"
  shows "CartesianToMotorSteps s machinePos stepsPerMm numAxes motorPos = (False, motorPos, s)"
  using assms singular_divisor [OF assms] by (simp add: CartesianToMotorSteps_cases Let_def)

theorem singular_target_changes_nothing_witness:
  "1 - fsquare (elbow_cos ex_arm ([3, 0, 0] ! X_AXIS) ([3, 0, 0] ! Y_AXIS)) < 1 / 100
   \<and> CartesianToMotorSteps ex_arm [3, 0, 0] [1, 1, 1] 3 [5, 6, 7] = (False, [5, 6, 7], ex_arm)"
proof -
  have h: "1 - fsquare (elbow_cos ex_arm ([3, 0, 0] ! X_AXIS) ([3, 0, 0] ! Y_AXIS)) < 1 / 100"
    by (simp add: elbow_cos_def ex_arm_fields fsquare_def X_AXIS_def Y_AXIS_def)
  show ?thesis
    using h singular_target_changes_nothing [OF h, of "[1, 1, 1]" 3 "[5, 6, 7]"] by simp
qed

subsection \<open>Reachability\<close>

text \<open>
  Claim C3. \<open>IsReachable (x, y)\<close> is true if and only if
  \<open>minRadius \<le> hypot (x, y) \<le> maxRadius\<close> and \<open>x > 0\<close>; it is false whenever the radius
  is below \<open>minRadius\<close>, above \<open>maxRadius\<close>, or \<open>x \<le> 0\<close>.
\<close>

theorem IsReachable_iff:
  "(IsReachable s x y \<longleftrightarrow> minRadius s \<le> hypot x y \<and> hypot x y \<le> maxRadius s \<and> 0 < x)
   \<and> (hypot x y < minRadius s \<or> maxRadius s < hypot x y \<or> x \<le> 0 \<longrightarrow> \<not> IsReachable s x y)"
  by (auto simp add: IsReachable_def hypot_def cmod_def fsquare_def power2_eq_square Let_def)

theorem IsReachable_iff_witness:
  "IsReachable ex_arm (5 / 2) 0 \<and> minRadius ex_arm \<le> hypot (5 / 2) 0
   \<and> hypot (5 / 2) 0 \<le> maxRadius ex_arm
   \<and> hypot 1 0 < minRadius ex_arm \<and> \<not> IsReachable ex_arm 1 0
   \<and> maxRadius ex_arm < hypot 3 0 \<and> \<not> IsReachable ex_arm 3 0
   \<and> \<not> IsReachable ex_arm (- (5 / 2)) 0"
proof -
  have a: "hypot (5 / 2) 0 = 5 / 2" "hypot 1 0 = 1" "hypot 3 0 = 3"
    by (simp_all add: hypot_def cmod_def)
  show ?thesis
    using IsReachable_iff [of ex_arm "5 / 2" 0] IsReachable_iff [of ex_arm 1 0]
      IsReachable_iff [of ex_arm 3 0] IsReachable_iff [of ex_arm "- (5 / 2)" 0]
    by (simp add: a ex_arm_fields)
qed

subsection \<open>The derived radii\<close>

text \<open>
  Claim C5, as stated, fails: with P = D = 1 and both elbow limits 0, which lies in the
  open interval from \<open>- pi / 2\<close> to \<open>pi / 2\<close>, Recalc yields \<open>minRadius = 2.02\<close> and
  \<open>maxRadius = 1.98\<close>.
\<close>

theorem Recalc_radii_counterexample:
  "0 < proximalArmLength straight_arm \<and> 0 < distalArmLength straight_arm
   \<and> - (pi / 2) < phiMinusThetaLimits straight_arm ! 0 \<and> phiMinusThetaLimits straight_arm ! 0 < pi / 2
   \<and> - (pi / 2) < phiMinusThetaLimits straight_arm ! 1 \<and> phiMinusThetaLimits straight_arm ! 1 < pi / 2
   \<and> \<not> minRadius (Recalc straight_arm) < maxRadius (Recalc straight_arm)"
  by (simp add: straight_arm_def raw_arm_def Recalc_def)

text \<open>
  Claim C5, amended. For \<open>D > 0\<close>, after Recalc \<open>minRadius < maxRadius\<close> holds exactly when
  the larger of the cosines of the two elbow limits is below
  \<open>(0.99 D - 0.02 P) / (1.01 D)\<close>.
\<close>

theorem Recalc_radii_ordered_iff:
  assumes "0 < distalArmLength s"
  shows "minRadius (Recalc s) < maxRadius (Recalc s) \<longleftrightarrow>
         max (cos (phiMinusThetaLimits s ! 0)) (cos (phiMinusThetaLimits s ! 1))
           < (99 * distalArmLength s - 2 * proximalArmLength s) / (101 * distalArmLength s)"
  using radii_algebra [OF assms] by (simp add: Recalc_def)

theorem Recalc_radii_ordered_iff_witness:
  "0 < distalArmLength (raw_arm 1 2 [- 90, 90] [- (pi / 3), pi / 3])
   \<and> minRadius ex_arm < maxRadius ex_arm
   \<and> max (cos (- (pi / 3))) (cos (pi / 3)) < (99 * 2 - 2 * 1) / (101 * 2)"
  using Recalc_radii_ordered_iff [of "raw_arm 1 2 [- 90, 90] [- (pi / 3), pi / 3]"]
  by (simp add: raw_arm_def ex_arm_def cos_60)

subsection \<open>Forward kinematics\<close>

text \<open>
  Claim C8. MotorStepsToCartesian always returns, and it computes
  \<open>arm1Angle = Xsteps / stepsPerDegreeX\<close> and
  \<open>arm2Angle = (Ysteps + Xsteps * crosstalk[0]) / stepsPerDegreeY\<close>, both converted to
  radians, \<open>x = P cos arm1Angle + D cos arm2Angle\<close>,
  \<open>y = P sin arm1Angle + D sin arm2Angle\<close> and
  \<open>z = (Zsteps + Xsteps * crosstalk[1] + Ysteps * crosstalk[2]) / stepsPerUnitZ\<close>. The second
  angle undoes the coupling of the inverse kinematics: from \<open>psiSteps - crosstalk[0] * Xsteps\<close>
  in place of \<open>Ysteps\<close> it gives the angle of \<open>psiSteps\<close>. The function is total in the model
  as it is in the code, which has no failing path; the output array has the three entries
  that the callers promise.
\<close>

theorem MotorStepsToCartesian_formula:
  assumes "3 \<le> length machinePos"
  shows "let Xsteps = real_of_int (sint (motorPos ! 0));
             Ysteps = real_of_int (sint (motorPos ! 1));
             Zsteps = real_of_int (sint (motorPos ! 2));
             arm1Angle = arm1Angle_spec Xsteps (stepsPerMm ! 0);
             arm2Angle = arm2Angle_spec Xsteps Ysteps (crosstalk s ! 0) (stepsPerMm ! 1);
             out = MotorStepsToCartesian s motorPos stepsPerMm numDrives machinePos
         in out ! 0 = proximalArmLength s * cos arm1Angle + distalArmLength s * cos arm2Angle
          \<and> out ! 1 = proximalArmLength s * sin arm1Angle + distalArmLength s * sin arm2Angle
          \<and> out ! 2 = (Zsteps + Xsteps * crosstalk s ! 1 + Ysteps * crosstalk s ! 2) / stepsPerMm ! 2
          \<and> length out = length machinePos
          \<and> arm2Angle_spec Xsteps (psiSteps - crosstalk s ! 0 * Xsteps) (crosstalk s ! 0) (stepsPerMm ! 1)
              = psiSteps / stepsPerMm ! 1 * (pi / 180)"
proof -
  from assms have "machinePos \<noteq> []" "Suc 0 < length machinePos" "2 < length machinePos"
    by auto
  then show ?thesis
    by (simp add: MotorStepsToCartesian_def Let_def arm1Angle_spec_def arm2Angle_spec_def
        int32_to_float_def DegreesToRadians_def X_AXIS_def Y_AXIS_def Z_AXIS_def mult.commute)
qed

theorem MotorStepsToCartesian_formula_witness:
  "3 \<le> length [0, 0, 0 :: real]
   \<and> MotorStepsToCartesian ex_arm [90, 180, 0] [1, 1, 1] 3 [0, 0, 0] ! 0
       = 1 * cos (arm1Angle_spec 90 1) + 2 * cos (arm2Angle_spec 90 180 0 1)
   \<and> MotorStepsToCartesian ex_arm [90, 180, 0] [1, 1, 1] 3 [0, 0, 0] ! 1
       = 1 * sin (arm1Angle_spec 90 1) + 2 * sin (arm2Angle_spec 90 180 0 1)
   \<and> MotorStepsToCartesian ex_arm [90, 180, 0] [1, 1, 1] 3 [0, 0, 0] ! 2 = 0"
  using MotorStepsToCartesian_formula [of "[0, 0, 0]" "[90, 180, 0]" "[1, 1, 1]" ex_arm 3 0]
  by (simp add: Let_def ex_arm_fields)

subsection \<open>What the two conversions write\<close>

text \<open>
  Claim C9. CartesianToMotorSteps and MotorStepsToCartesian write only the entries 0, 1
  and 2 of their output arrays: with more than three axes or drives, every output entry
  at index 3 or above is as before the call, and the arrays keep their lengths.
\<close>

theorem only_XYZ_written:
  assumes "length motorPos = numAxes" and "3 < numAxes"
    and "length machinePos' = numDrives" and "3 < numDrives"
  shows "(\<forall>i. 3 \<le> i \<and> i < numAxes \<longrightarrow>
            fst (snd (CartesianToMotorSteps s machinePos stepsPerMm numAxes motorPos)) ! i = motorPos ! i)
       \<and> length (fst (snd (CartesianToMotorSteps s machinePos stepsPerMm numAxes motorPos))) = numAxes
       \<and> (\<forall>i. 3 \<le> i \<and> i < numDrives \<longrightarrow>
            MotorStepsToCartesian s motorPos' stepsPerMm' numDrives machinePos' ! i = machinePos' ! i)
       \<and> length (MotorStepsToCartesian s motorPos' stepsPerMm' numDrives machinePos') = numDrives"
  using assms
  by (simp add: CartesianToMotorSteps_cases motor_steps_frame motor_steps_length Let_def
      MotorStepsToCartesian_def X_AXIS_def Y_AXIS_def Z_AXIS_def)

theorem only_XYZ_written_witness:
  "length [5, 6, 7, 8 :: int32_t] = 4 \<and> (3 :: nat) < 4 \<and> length [1, 2, 3, 4 :: real] = 4
   \<and> fst (CartesianToMotorSteps ex_arm [2, - 1, 0, 9] [1, 1, 1, 1] 4 [5, 6, 7, 8])
   \<and> fst (snd (CartesianToMotorSteps ex_arm [2, - 1, 0, 9] [1, 1, 1, 1] 4 [5, 6, 7, 8])) ! 3 = 8
   \<and> MotorStepsToCartesian ex_arm [90, 180, 0, 0] [1, 1, 1, 1] 4 [1, 2, 3, 4] ! 3 = 4"
proof -
  have h: "length [5, 6, 7, 8 :: int32_t] = 4" "(3 :: nat) < 4" "length [1, 2, 3, 4 :: real] = 4"
    by simp_all
  have ok: "fst (CartesianToMotorSteps ex_arm [2, - 1, 0, 9] [1, 1, 1, 1] 4 [5, 6, 7, 8])"
    by (simp add: CartesianToMotorSteps_cases Let_def X_AXIS_def Y_AXIS_def ex_arm_target
        fsquare_def ex_arm_fields)
  from only_XYZ_written [OF h(1) h(2) h(3) h(2), of ex_arm "[2, - 1, 0, 9]" "[1, 1, 1, 1]"
      "[90, 180, 0, 0]" "[1, 1, 1, 1]"]
  have "fst (snd (CartesianToMotorSteps ex_arm [2, - 1, 0, 9] [1, 1, 1, 1] 4 [5, 6, 7, 8])) ! 3
          = [5, 6, 7, 8] ! 3"
    and "MotorStepsToCartesian ex_arm [90, 180, 0, 0] [1, 1, 1, 1] 4 [1, 2, 3, 4] ! 3
          = [1, 2, 3, 4] ! 3"
    by simp_all
  with ok show ?thesis by simp
qed

subsection \<open>The arm-mode flag\<close>

text \<open>
  Claim C4, as stated, fails: when neither arm mode passes its test the call returns
  \<open>False\<close> and leaves the flag negated (line 78 has run, line 76 returns). Here the arm
  with P = D = 1 and theta limits 0.25 and 0.5 is asked for the target (1, 1), for which
  the default mode gives theta = 0 and the other mode theta = pi / 2.
\<close>

theorem arm_mode_flag_counterexample:
  "fst (CartesianToMotorSteps narrow_arm [1, 1, 0] [1, 1, 1] 3 [0, 0, 0]) = False
   \<and> isDefaultArmMode (snd (snd (CartesianToMotorSteps narrow_arm [1, 1, 0] [1, 1, 1] 3 [0, 0, 0])))
       \<noteq> isDefaultArmMode narrow_arm"
  using pi_bounds
  by (simp add: CartesianToMotorSteps_cases Let_def X_AXIS_def Y_AXIS_def mode_valid_def
      unit_arm_angles [OF narrow_arm_fields(1-4)] arm_valid_def narrow_arm_fields fsquare_def)

text \<open>
  Claim C4, amended. A call that fails on the singularity test leaves the object, and so
  the flag, unchanged. When a call returns true, the flag names the mode that produced
  the solution: that mode passes its test, the motor positions written are those of that
  mode, and nothing but the flag has changed in the object; if the mode preferred before
  the call passes its test, the object is unchanged.
\<close>

theorem arm_mode_flag:
  "let x = machinePos ! X_AXIS; y = machinePos ! Y_AXIS;
       r = CartesianToMotorSteps s machinePos stepsPerMm numAxes motorPos;
       ok = fst r; motorPos' = fst (snd r); s' = snd (snd r)
   in (1 - fsquare (elbow_cos s x y) < 1 / 100 \<longrightarrow> \<not> ok \<and> s' = s)
    \<and> (ok \<longrightarrow> mode_valid s x y (isDefaultArmMode s')
              \<and> motorPos' = motor_steps s (mode_angles s x y (isDefaultArmMode s'))
                              machinePos stepsPerMm motorPos
              \<and> s' = s\<lparr>isDefaultArmMode := isDefaultArmMode s'\<rparr>)
    \<and> (ok \<and> mode_valid s x y (isDefaultArmMode s) \<longrightarrow> s' = s)"
proof (cases "2 * proximalArmLength s * distalArmLength s = 0")
  case True
  then have "\<not> 1 - fsquare (elbow_cos s (machinePos ! X_AXIS) (machinePos ! Y_AXIS)) < 1 / 100"
    using singular_divisor by blast
  with True show ?thesis
    by (simp add: CartesianToMotorSteps_cases Let_def)
next
  case False
  then show ?thesis
    by (simp add: CartesianToMotorSteps_cases Let_def)
qed

theorem arm_mode_flag_witness:
  "1 - fsquare (elbow_cos ex_arm 3 0) < 1 / 100
   \<and> \<not> fst (CartesianToMotorSteps ex_arm [3, 0, 0] [1, 1, 1] 3 [0, 0, 0])
   \<and> snd (snd (CartesianToMotorSteps ex_arm [3, 0, 0] [1, 1, 1] 3 [0, 0, 0])) = ex_arm
   \<and> mode_valid ex_arm 2 (- 1) (isDefaultArmMode ex_arm)
   \<and> CartesianToMotorSteps ex_arm [2, - 1, 0] [1, 1, 1] 3 [0, 0, 0] = (True, [90, 180, 0], ex_arm)
   \<and> motor_steps ex_arm (mode_angles ex_arm 2 (- 1) True) [2, - 1, 0] [1, 1, 1] [0, 0, 0] = [90, 180, 0]
   \<and> fst (CartesianToMotorSteps wide_arm [1, 1, 0] [1, 1, 1] 3 [0, 0, 0])
   \<and> mode_valid wide_arm 1 1 False
   \<and> motor_steps wide_arm (mode_angles wide_arm 1 1 False) [1, 1, 0] [1, 1, 1] [0, 0, 0] = [90, 0, 0]"
proof -
  have sing: "1 - fsquare (elbow_cos ex_arm 3 0) < 1 / 100"
    by (simp add: elbow_cos_def ex_arm_fields fsquare_def)
  show ?thesis
    using sing
      arm_mode_flag [of "[3, 0, 0]" ex_arm "[1, 1, 1]" 3 "[0, 0, 0]"]
      arm_mode_flag [of "[2, - 1, 0]" ex_arm "[1, 1, 1]" 3 "[0, 0, 0]"]
      arm_mode_flag [of "[1, 1, 0]" wide_arm "[1, 1, 1]" 3 "[0, 0, 0]"]
    by (simp add: Let_def X_AXIS_def Y_AXIS_def inverse_example switch_example ex_arm_fields
        prod_eq_iff)
qed

subsection \<open>The geometry of the two arm modes\<close>

text \<open>
  For arm lengths above zero, current cached squares and a target that passes the test
  of line 39, the angles of the other arm mode (line 66) put the arm on the target: the
  forward equations of lines 96 and 97, applied to \<open>theta\<close> and \<open>psi = theta + psiMinusTheta\<close>,
  give \<open>x\<close> and \<open>y\<close>. For the default mode (line 57) they do so only after \<open>theta\<close> is
  negated. Both hold before the angles are cut to whole steps.
\<close>

lemma atan2f_polar:
  assumes "x \<noteq> 0 \<or> y \<noteq> 0"
  shows "cos (atan2f y x) = x / sqrt (x\<^sup>2 + y\<^sup>2)" and "sin (atan2f y x) = y / sqrt (x\<^sup>2 + y\<^sup>2)"
proof -
  have pos: "0 < x\<^sup>2 + y\<^sup>2"
    using assms by (metis sum_power2_gt_zero_iff)
  have root: "sqrt (1 + (y / x)\<^sup>2) = sqrt (x\<^sup>2 + y\<^sup>2) / \<bar>x\<bar>" if "x \<noteq> 0"
  proof -
    have "1 + (y / x)\<^sup>2 = (x\<^sup>2 + y\<^sup>2) / x\<^sup>2"
      using that by (simp add: field_simps power2_eq_square)
    then show ?thesis
      by (simp add: real_sqrt_divide)
  qed
  have c: "cos (arctan (y / x)) = \<bar>x\<bar> / sqrt (x\<^sup>2 + y\<^sup>2)" if "x \<noteq> 0"
    using that by (simp add: cos_arctan root)
  have s: "sin (arctan (y / x)) = (y / x) * \<bar>x\<bar> / sqrt (x\<^sup>2 + y\<^sup>2)" if "x \<noteq> 0"
    using that by (simp add: sin_arctan root)
  consider "0 < x" | "x < 0" | "x = 0" "0 < y" | "x = 0" "y < 0"
    using assms by linarith
  then have "cos (atan2f y x) = x / sqrt (x\<^sup>2 + y\<^sup>2) \<and> sin (atan2f y x) = y / sqrt (x\<^sup>2 + y\<^sup>2)"
  proof cases
    case 1
    then show ?thesis using c s by (simp add: atan2f_def)
  next
    case 2
    then show ?thesis using c s by (simp add: atan2f_def)
  next
    case 3
    then show ?thesis by (simp add: atan2f_def)
  next
    case 4
    then show ?thesis by (simp add: atan2f_def)
  qed
  then show "cos (atan2f y x) = x / sqrt (x\<^sup>2 + y\<^sup>2)" and "sin (atan2f y x) = y / sqrt (x\<^sup>2 + y\<^sup>2)"
    by simp_all
qed

lemma elbow_parts:
  assumes sq: "squares_current s"
    and P: "0 < proximalArmLength s" and D: "0 < distalArmLength s"
    and ns: "\<not> 1 - fsquare (elbow_cos s x y) < 1 / 100"
  defines "c \<equiv> elbow_cos s x y"
  defines "sn \<equiv> sqrt (1 - fsquare c)"
  defines "K1 \<equiv> proximalArmLength s + distalArmLength s * c"
  defines "K2 \<equiv> distalArmLength s * sn"
  shows "cos (atan2f sn c) = c" and "sin (atan2f sn c) = sn"
    and "K1\<^sup>2 + K2\<^sup>2 = x\<^sup>2 + y\<^sup>2" and "0 < x\<^sup>2 + y\<^sup>2"
proof -
  have c2: "c\<^sup>2 \<le> 99 / 100"
    using ns by (simp add: c_def fsquare_def power2_eq_square)
  then have sn2: "sn\<^sup>2 = 1 - c\<^sup>2"
    by (simp add: sn_def fsquare_def power2_eq_square)
  have sn_pos: "0 < sn"
    using c2 by (simp add: sn_def fsquare_def power2_eq_square)
  have unit: "c\<^sup>2 + sn\<^sup>2 = 1"
    using sn2 by simp
  show "cos (atan2f sn c) = c" and "sin (atan2f sn c) = sn"
    using atan2f_polar [of c sn] sn_pos by (simp_all add: unit)
  have "c * (2 * proximalArmLength s * distalArmLength s)
          = x\<^sup>2 + y\<^sup>2 - (proximalArmLength s)\<^sup>2 - (distalArmLength s)\<^sup>2"
    using sq P D by (simp add: c_def elbow_cos_def squares_current_def fsquare_def power2_eq_square)
  then have r: "x\<^sup>2 + y\<^sup>2 = (proximalArmLength s)\<^sup>2 + (distalArmLength s)\<^sup>2
                  + 2 * proximalArmLength s * distalArmLength s * c"
    by (simp add: algebra_simps)
  have "K1\<^sup>2 + K2\<^sup>2 = (proximalArmLength s)\<^sup>2 + 2 * proximalArmLength s * distalArmLength s * c
          + (distalArmLength s)\<^sup>2 * (c\<^sup>2 + sn\<^sup>2)"
    by (simp add: K1_def K2_def power2_eq_square algebra_simps)
  then show k: "K1\<^sup>2 + K2\<^sup>2 = x\<^sup>2 + y\<^sup>2"
    using r unit by simp
  have "c\<^sup>2 < 1"
    using c2 by simp
  then have "\<bar>c\<bar> < 1"
    by (simp add: abs_square_less_1)
  then have "- 1 < c"
    by simp
  moreover have pd: "0 < 2 * proximalArmLength s * distalArmLength s"
    using P D by simp
  ultimately have "(- 1) * (2 * proximalArmLength s * distalArmLength s)
               < c * (2 * proximalArmLength s * distalArmLength s)"
    by (rule mult_strict_right_mono)
  then have lower: "- (2 * proximalArmLength s * distalArmLength s)
               < 2 * proximalArmLength s * distalArmLength s * c"
    by (simp add: mult.commute)
  have "0 \<le> (proximalArmLength s - distalArmLength s)\<^sup>2"
    by simp
  then have "2 * proximalArmLength s * distalArmLength s
               \<le> (proximalArmLength s)\<^sup>2 + (distalArmLength s)\<^sup>2"
    by (simp add: power2_diff)
  with lower have "0 < (proximalArmLength s)\<^sup>2 + (distalArmLength s)\<^sup>2
                  + 2 * proximalArmLength s * distalArmLength s * c"
    by linarith
  then show "0 < x\<^sup>2 + y\<^sup>2"
    by (simp only: r)
qed

lemma rotation_parts:
  fixes K1 K2 x y a b :: real
  assumes k: "K1\<^sup>2 + K2\<^sup>2 = x\<^sup>2 + y\<^sup>2" and pos: "0 < x\<^sup>2 + y\<^sup>2"
    and ab: "a\<^sup>2 + b\<^sup>2 = (K1\<^sup>2 + K2\<^sup>2) * (x\<^sup>2 + y\<^sup>2)"
  shows "cos (atan2f b a) = a / (x\<^sup>2 + y\<^sup>2)" and "sin (atan2f b a) = b / (x\<^sup>2 + y\<^sup>2)"
proof -
  have sq: "a\<^sup>2 + b\<^sup>2 = (x\<^sup>2 + y\<^sup>2)\<^sup>2"
    using ab k by (simp add: power2_eq_square)
  then have root: "sqrt (a\<^sup>2 + b\<^sup>2) = x\<^sup>2 + y\<^sup>2"
    using pos by simp
  have "0 < (x\<^sup>2 + y\<^sup>2)\<^sup>2"
    using pos by (rule zero_less_power)
  then have "0 < a\<^sup>2 + b\<^sup>2"
    by (simp only: sq)
  then have "a \<noteq> 0 \<or> b \<noteq> 0"
    by (simp add: sum_power2_gt_zero_iff)
  then show "cos (atan2f b a) = a / (x\<^sup>2 + y\<^sup>2)" and "sin (atan2f b a) = b / (x\<^sup>2 + y\<^sup>2)"
    using atan2f_polar [of a b] root by simp_all
qed

lemma alternate_mode_reaches_target:
  assumes sq: "squares_current s"
    and P: "0 < proximalArmLength s" and D: "0 < distalArmLength s"
    and ns: "\<not> 1 - fsquare (elbow_cos s x y) < 1 / 100"
  shows "cos (fst (mode_angles s x y False)) * proximalArmLength s
           + cos (fst (mode_angles s x y False) + snd (mode_angles s x y False)) * distalArmLength s = x"
    and "sin (fst (mode_angles s x y False)) * proximalArmLength s
           + sin (fst (mode_angles s x y False) + snd (mode_angles s x y False)) * distalArmLength s = y"
proof -
  define c where "c = elbow_cos s x y"
  define sn where "sn = sqrt (1 - fsquare c)"
  define K1 where "K1 = proximalArmLength s + distalArmLength s * c"
  define K2 where "K2 = distalArmLength s * sn"
  define a where "a = K1 * x - K2 * y"
  define b where "b = K2 * x + K1 * y"
  define R where "R = x\<^sup>2 + y\<^sup>2"
  note parts = elbow_parts [OF sq P D ns, folded c_def, folded sn_def, folded K1_def K2_def, folded R_def]
  have R: "0 < R" and k: "K1\<^sup>2 + K2\<^sup>2 = R"
    using parts by simp_all
  have ab: "a\<^sup>2 + b\<^sup>2 = (K1\<^sup>2 + K2\<^sup>2) * (x\<^sup>2 + y\<^sup>2)"
    by (simp add: a_def b_def power2_eq_square algebra_simps)
  have th: "cos (atan2f b a) = a / R" "sin (atan2f b a) = b / R"
    using rotation_parts [OF _ _ ab] k R by (simp_all add: R_def)
  have ang: "mode_angles s x y False = (atan2f b a, - atan2f sn c)"
    by (simp add: mode_angles_def Let_def arm_theta_def a_def b_def K1_def K2_def sn_def c_def)
  have e: "cos (atan2f b a - atan2f sn c) = (a / R) * c + (b / R) * sn"
    "sin (atan2f b a - atan2f sn c) = (b / R) * c - (a / R) * sn"
    using parts(1,2) th by (simp_all add: cos_diff sin_diff)
  have "K1 * a + K2 * b = (K1\<^sup>2 + K2\<^sup>2) * x"
    by (simp add: a_def b_def power2_eq_square algebra_simps)
  then have x: "K1 * a + K2 * b = R * x"
    using k by simp
  have "K1 * b - K2 * a = (K1\<^sup>2 + K2\<^sup>2) * y"
    by (simp add: a_def b_def power2_eq_square algebra_simps)
  then have y: "K1 * b - K2 * a = R * y"
    using k by simp
  have "(a / R) * proximalArmLength s + ((a / R) * c + (b / R) * sn) * distalArmLength s
          = (K1 * a + K2 * b) / R"
    using R by (simp add: K1_def K2_def field_simps)
  also have "\<dots> = x"
    using x R by simp
  finally show "cos (fst (mode_angles s x y False)) * proximalArmLength s
           + cos (fst (mode_angles s x y False) + snd (mode_angles s x y False)) * distalArmLength s = x"
    by (simp add: ang th e)
  have "(b / R) * proximalArmLength s + ((b / R) * c - (a / R) * sn) * distalArmLength s
          = (K1 * b - K2 * a) / R"
    using R by (simp add: K1_def K2_def field_simps)
  also have "\<dots> = y"
    using y R by simp
  finally show "sin (fst (mode_angles s x y False)) * proximalArmLength s
           + sin (fst (mode_angles s x y False) + snd (mode_angles s x y False)) * distalArmLength s = y"
    by (simp add: ang th e)
qed

lemma default_mode_negated_theta:
  assumes sq: "squares_current s"
    and P: "0 < proximalArmLength s" and D: "0 < distalArmLength s"
    and ns: "\<not> 1 - fsquare (elbow_cos s x y) < 1 / 100"
  shows "cos (- fst (mode_angles s x y True)) * proximalArmLength s
           + cos (- fst (mode_angles s x y True) + snd (mode_angles s x y True)) * distalArmLength s = x"
    and "sin (- fst (mode_angles s x y True)) * proximalArmLength s
           + sin (- fst (mode_angles s x y True) + snd (mode_angles s x y True)) * distalArmLength s = y"
proof -
  define c where "c = elbow_cos s x y"
  define sn where "sn = sqrt (1 - fsquare c)"
  define K1 where "K1 = proximalArmLength s + distalArmLength s * c"
  define K2 where "K2 = distalArmLength s * sn"
  define a where "a = K1 * x + K2 * y"
  define b where "b = K2 * x - K1 * y"
  define R where "R = x\<^sup>2 + y\<^sup>2"
  note parts = elbow_parts [OF sq P D ns, folded c_def, folded sn_def, folded K1_def K2_def, folded R_def]
  have R: "0 < R" and k: "K1\<^sup>2 + K2\<^sup>2 = R"
    using parts by simp_all
  have ab: "a\<^sup>2 + b\<^sup>2 = (K1\<^sup>2 + K2\<^sup>2) * (x\<^sup>2 + y\<^sup>2)"
    by (simp add: a_def b_def power2_eq_square algebra_simps)
  have th: "cos (atan2f b a) = a / R" "sin (atan2f b a) = b / R"
    using rotation_parts [OF _ _ ab] k R by (simp_all add: R_def)
  have ang: "mode_angles s x y True = (atan2f b a, atan2f sn c)"
    by (simp add: mode_angles_def Let_def arm_theta_def a_def b_def K1_def K2_def sn_def c_def)
  have e: "cos (atan2f sn c - atan2f b a) = c * (a / R) + sn * (b / R)"
    "sin (atan2f sn c - atan2f b a) = sn * (a / R) - c * (b / R)"
    using parts(1,2) th by (simp_all add: cos_diff sin_diff)
  have "K1 * a + K2 * b = (K1\<^sup>2 + K2\<^sup>2) * x"
    by (simp add: a_def b_def power2_eq_square algebra_simps)
  then have x: "K1 * a + K2 * b = R * x"
    using k by simp
  have "K2 * a - K1 * b = (K1\<^sup>2 + K2\<^sup>2) * y"
    by (simp add: a_def b_def power2_eq_square algebra_simps)
  then have y: "K2 * a - K1 * b = R * y"
    using k by simp
  have "(a / R) * proximalArmLength s + (c * (a / R) + sn * (b / R)) * distalArmLength s
          = (K1 * a + K2 * b) / R"
    using R by (simp add: K1_def K2_def field_simps)
  also have "\<dots> = x"
    using x R by simp
  finally show "cos (- fst (mode_angles s x y True)) * proximalArmLength s
           + cos (- fst (mode_angles s x y True) + snd (mode_angles s x y True)) * distalArmLength s = x"
    by (simp add: ang th e)
  have "- (b / R) * proximalArmLength s + (sn * (a / R) - c * (b / R)) * distalArmLength s
          = (K2 * a - K1 * b) / R"
    using R by (simp add: K1_def K2_def field_simps)
  also have "\<dots> = y"
    using y R by simp
  finally show "sin (- fst (mode_angles s x y True)) * proximalArmLength s
           + sin (- fst (mode_angles s x y True) + snd (mode_angles s x y True)) * distalArmLength s = y"
    by (simp add: ang th e)
qed

subsection \<open>The round trip\<close>

text \<open>
  Claim C1 fails on the code. For the arm with P = 1, D = 2 and radii 2.02 and 2.97, in
  the default arm mode, the target (2, -1, 0) lies strictly inside the annulus with
  \<open>x > 0\<close>; with one step per degree and per millimetre CartesianToMotorSteps succeeds
  with the motor positions 90, 180, 0, and MotorStepsToCartesian maps these to (-2, 1, 0).
  No rounding and no truncation occurs on the way. Line 57 computes the negated angle of
  the default mode (lemma \<open>default_mode_negated_theta\<close>; its first argument should be
  \<open>K1 y - K2 x\<close>), while line 66 is right for the other mode (lemma
  \<open>alternate_mode_reaches_target\<close>).
\<close>

theorem round_trip_fails_in_default_mode:
  "minRadius ex_arm < hypot 2 (- 1) \<and> hypot 2 (- 1) < maxRadius ex_arm \<and> (0 :: real) < 2
   \<and> CartesianToMotorSteps ex_arm [2, - 1, 0] [1, 1, 1] 3 [0, 0, 0] = (True, [90, 180, 0], ex_arm)
   \<and> MotorStepsToCartesian ex_arm [90, 180, 0] [1, 1, 1] 3 [2, - 1, 0] = [- 2, 1, 0]"
proof -
  have h: "hypot 2 (- 1) = sqrt 5"
    by (simp add: hypot_def cmod_def)
  have a: "101 / 50 < sqrt 5"
    by (rule real_less_rsqrt) (simp add: power2_eq_square)
  have b: "sqrt 5 < 297 / 100"
    by (rule real_less_lsqrt) (simp_all add: power2_eq_square)
  have c: "MotorStepsToCartesian ex_arm [90, 180, 0] [1, 1, 1] 3 [2, - 1, 0] = [- 2, 1, 0]"
    by (simp add: MotorStepsToCartesian_def Let_def ex_arm_fields X_AXIS_def Y_AXIS_def Z_AXIS_def
        DegreesToRadians_def int32_to_float_def)
  show ?thesis
    using a b c inverse_example by (simp add: h ex_arm_fields)
qed

subsection \<open>Parameter handling\<close>

text \<open>
  Claim C6. For command code 669, with the parameter source as the specification
  describes it: the first array parameter that is present, among A, B and C in this
  order, if it has the expected number of values, is applied, and the function returns
  true at once, the derived values being those before the call whatever scalar parameters
  were applied; with no array parameter and a scalar P, D, S or T, the scalars are
  applied, Recalc is called and true is returned; with none of the seven letters the
  reply is the report of the current values, which are the proximal arm length, the two
  theta limits, the distal arm length, the two elbow limits, the three cross-talk
  factors, the segments per second as an integer and the minimum segment length, and
  false is returned. The code returns at the first array whose fetch gives true, so an
  array B or C is reached only when the arrays before it are absent. That a true result
  of the fetch of A ends the call with true and without Recalc holds for every
  parameter source (lemma \<open>M669_array_return_skips_Recalc\<close>).
\<close>

theorem M669_behaviour:
  "let r = SetOrReportParameters 669 (parsed_command ps) reply error s;
       s1 = apply_scalars ps s
   in (ps CHR ''A'' = Some (a, as) \<and> Suc (length as) = 2 \<longrightarrow>
         r = (True, reply, error, s1\<lparr>thetaLimits := a # as\<rparr>)
         \<and> derived_values (snd (snd (snd r))) = derived_values s)
    \<and> (ps CHR ''A'' = None \<and> ps CHR ''B'' = Some (b, bs) \<and> Suc (length bs) = 2 \<longrightarrow>
         r = (True, reply, error, s1\<lparr>phiMinusThetaLimits := b # bs\<rparr>)
         \<and> derived_values (snd (snd (snd r))) = derived_values s)
    \<and> (ps CHR ''A'' = None \<and> ps CHR ''B'' = None \<and> ps CHR ''C'' = Some (c, cs)
          \<and> Suc (length cs) = 3 \<longrightarrow>
         r = (True, reply, error, s1\<lparr>crosstalk := c # cs\<rparr>)
         \<and> derived_values (snd (snd (snd r))) = derived_values s)
    \<and> (ps CHR ''A'' = None \<and> ps CHR ''B'' = None \<and> ps CHR ''C'' = None \<and> scalar_present ps \<longrightarrow>
         r = (True, reply, error, Recalc s1))
    \<and> (ps CHR ''A'' = None \<and> ps CHR ''B'' = None \<and> ps CHR ''C'' = None \<and> \<not> scalar_present ps \<longrightarrow>
         r = (False,
              ScaraParametersReport
                [FloatArg (proximalArmLength s),
                 FloatArg (thetaLimits s ! 0), FloatArg (thetaLimits s ! 1),
                 FloatArg (distalArmLength s),
                 FloatArg (phiMinusThetaLimits s ! 0), FloatArg (phiMinusThetaLimits s ! 1),
                 FloatArg (crosstalk s ! 0), FloatArg (crosstalk s ! 1), FloatArg (crosstalk s ! 2),
                 IntArg (sint (float_to_int32 (segmentsPerSecond s))),
                 FloatArg (minSegmentLength s)],
              error, s))"
  by (simp add: M669_parsed Let_def derived_values_kept)

theorem M669_behaviour_witness:
  "SetOrReportParameters 669 (parsed_command cmd_PA) (Text []) False ex_arm
     = (True, Text [], False, ex_arm\<lparr>proximalArmLength := 100, thetaLimits := [0, 90]\<rparr>)
   \<and> SetOrReportParameters 669 (parsed_command cmd_B) (Text []) False ex_arm
     = (True, Text [], False, ex_arm\<lparr>phiMinusThetaLimits := [- 1, 1]\<rparr>)
   \<and> SetOrReportParameters 669 (parsed_command cmd_C) (Text []) False ex_arm
     = (True, Text [], False, ex_arm\<lparr>crosstalk := [0, 1, 2]\<rparr>)
   \<and> SetOrReportParameters 669 (parsed_command cmd_P) (Text []) False ex_arm
     = (True, Text [], False, Recalc (ex_arm\<lparr>proximalArmLength := 100\<rparr>))
   \<and> SetOrReportParameters 669 (parsed_command Map.empty) (Text []) False ex_arm
     = (False,
        ScaraParametersReport
          [FloatArg 1, FloatArg (- 90), FloatArg 90, FloatArg 2, FloatArg (- (pi / 3)),
           FloatArg (pi / 3), FloatArg 0, FloatArg 0, FloatArg 0, IntArg 200, FloatArg (1 / 5)],
        False, ex_arm)"
proof -
  have report:
    "[FloatArg (proximalArmLength ex_arm),
      FloatArg (thetaLimits ex_arm ! 0), FloatArg (thetaLimits ex_arm ! 1),
      FloatArg (distalArmLength ex_arm),
      FloatArg (phiMinusThetaLimits ex_arm ! 0), FloatArg (phiMinusThetaLimits ex_arm ! 1),
      FloatArg (crosstalk ex_arm ! 0), FloatArg (crosstalk ex_arm ! 1), FloatArg (crosstalk ex_arm ! 2),
      IntArg (sint (float_to_int32 (segmentsPerSecond ex_arm))),
      FloatArg (minSegmentLength ex_arm)]
     = [FloatArg 1, FloatArg (- 90), FloatArg 90, FloatArg 2, FloatArg (- (pi / 3)),
        FloatArg (pi / 3), FloatArg 0, FloatArg 0, FloatArg 0, IntArg 200, FloatArg (1 / 5)]"
    by (simp add: ex_arm_fields float_to_int32_def)
  show ?thesis
    unfolding report [symmetric]
    using M669_behaviour [of cmd_PA "Text []" False ex_arm 0 "[90]"]
      M669_behaviour [of cmd_B "Text []" False ex_arm _ _ "- 1" "[1]"]
      M669_behaviour [of cmd_C "Text []" False ex_arm _ _ _ _ 0 "[1, 2]"]
      M669_behaviour [of cmd_P "Text []" False ex_arm]
      M669_behaviour [of Map.empty "Text []" False ex_arm]
    by (simp add: Let_def cmd_lookups apply_scalars_def scalar_of_def scalar_present_def)
qed

text \<open>
  Claim C7 fails on the code. For the command \<open>M669 A0:90:180\<close>, whose array is
  malformed, SetOrReportParameters returns true with the diagnostic in the reply, and the
  caller's error flag is still false. No path of the branch for code 669 assigns the flag
  (lemma \<open>M669_error_flag_untouched\<close>, for every behaviour of the parameter source), though
  the comment of line 104 says "Set 'error' true if there was an error".
\<close>

theorem M669_malformed_array_leaves_error_flag:
  "SetOrReportParameters 669 (parsed_command cmd_A3) (Text []) False ex_arm
     = (True, ArrayLengthDiagnostic CHR ''A'' 2, False, ex_arm)"
  by (simp add: M669_parsed Let_def cmd_A3_def apply_scalars_def scalar_of_def)

end
